theory Spec2Isabelle
  imports Complex_Main
begin

section \<open>Python values used by NistCrawler\<close>

text \<open>
  A Python \<open>str\<close> is a sequence of Unicode code points; it is modelled as a list of
  code points, so that \<open>len\<close>, slicing and searching count what Python counts.
  String literals of the source are written \<open>lit ''...''\<close>.
\<close>

type_synonym ustr = "nat list"

definition lit :: "string \<Rightarrow> ustr" where
  "lit s = map of_char s"

text \<open>
  The exceptions the source can raise; only three of them are caught per row.
  \<open>OSError\<close> stands for any other error of the operating system.
\<close>

datatype exc = IndexError | ValueError | AttributeError | KeyError
  | OverflowError | ZeroDivisionError | UnicodeEncodeError | FileNotFoundError | OSError
  | CsvError

text \<open>
  A Python \<open>float\<close> is an IEEE 754 binary64 value: a finite value (a number that is
  representable with 53 significant bits), negative zero, an infinity or NaN.
\<close>

datatype pyfloat = Finite real | NegZero | PosInf | NegInf | NaN

fun ilog2 :: "nat \<Rightarrow> nat" where
  "ilog2 n = (if n < 2 then 0 else Suc (ilog2 (n div 2)))"

declare ilog2.simps [simp del]

text \<open>\<open>pow2_le e a b\<close> decides \<open>2^e \<le> a / b\<close> in integer arithmetic, for \<open>b > 0\<close>.\<close>

definition pow2_le :: "int \<Rightarrow> nat \<Rightarrow> nat \<Rightarrow> bool" where
  "pow2_le e a b = (if 0 \<le> e then 2 ^ nat e * b \<le> a else b \<le> a * 2 ^ nat (- e))"

text \<open>
  \<open>binade a b\<close> is the exponent \<open>e\<close> with \<open>2^e \<le> a / b < 2^(e+1)\<close>, for positive
  \<open>a\<close> and \<open>b\<close>.
\<close>

definition binade :: "nat \<Rightarrow> nat \<Rightarrow> int" where
  "binade a b =
     (let e0 = int (ilog2 a) - int (ilog2 b)
      in if pow2_le e0 a b then e0 else e0 - 1)"

text \<open>The integer nearest to \<open>n / d\<close>, a tie going to the even neighbour.\<close>

definition round_half_even :: "nat \<Rightarrow> nat \<Rightarrow> nat" where
  "round_half_even n d =
     (let q = n div d; r = n mod d
      in if 2 * r < d then q
         else if d < 2 * r then q + 1
         else if even q then q else q + 1)"

text \<open>
  Rounding of the positive fraction \<open>a / b\<close> to the nearest binary64 value, ties to
  even: the spacing of the binary64 values around it is \<open>2^(e - 52)\<close>, where \<open>e\<close> is
  its binade, not below the smallest normal exponent \<open>-1022\<close>. A result of \<open>2^1024\<close>
  or more is outside the finite range.
\<close>

definition round_binary64 :: "nat \<Rightarrow> nat \<Rightarrow> real" where
  "round_binary64 a b =
     (let s = max (binade a b) (- 1022) - 52;
          m = round_half_even (a * 2 ^ nat (- s)) (b * 2 ^ nat s)
      in of_nat m * 2 powi s)"

text \<open>
  \<open>a / b\<close> on Python integers is true division: the exact quotient, correctly rounded to
  a float; it raises \<open>OverflowError\<close> when the result is too large for a float.
\<close>

definition py_truediv :: "int \<Rightarrow> int \<Rightarrow> exc + pyfloat" where
  "py_truediv a b =
     (if b = 0 then Inl ZeroDivisionError
      else if a = 0 then Inr (Finite 0)
      else let neg = ((a < 0) \<noteq> (b < 0));
               r = round_binary64 (nat \<bar>a\<bar>) (nat \<bar>b\<bar>) in
          if 2 ^ 1024 \<le> r then Inl OverflowError
          else if r = 0 then Inr (if neg then NegZero else Finite 0)
          else Inr (Finite (if neg then - r else r)))"

text \<open>\<open>math.ceil\<close> on a float returns an integer, and raises on infinities and NaN.\<close>

fun math_ceil :: "pyfloat \<Rightarrow> exc + int" where
  "math_ceil (Finite r) = Inr \<lceil>r\<rceil>"
| "math_ceil NegZero = Inr 0"
| "math_ceil PosInf = Inl OverflowError"
| "math_ceil NegInf = Inl OverflowError"
| "math_ceil NaN = Inl ValueError"

section \<open>Page planning\<close>

definition results_per_page :: int where
  "results_per_page = 20"

text \<open>\<open>num_pages = math.ceil(total_vulns / results_per_page)\<close>\<close>

definition num_pages :: "int \<Rightarrow> exc + int" where
  "num_pages total_vulns =
     (case py_truediv total_vulns results_per_page of
        Inl e \<Rightarrow> Inl e
      | Inr q \<Rightarrow> math_ceil q)"

text \<open>
  \<open>for page in range(num_pages): start_index = page * results_per_page\<close>: the start
  offsets of the page requests, in the order they are issued.
\<close>

definition start_indexes :: "int \<Rightarrow> int list" where
  "start_indexes n = map (\<lambda>page. int page * results_per_page) [0..<nat n]"

definition page_offsets :: "int \<Rightarrow> exc + int list" where
  "page_offsets total_vulns =
     (case num_pages total_vulns of
        Inl e \<Rightarrow> Inl e
      | Inr n \<Rightarrow> Inr (start_indexes n))"

section \<open>Strings\<close>

text \<open>
  The characters Python treats as whitespace in \<open>str.split()\<close> and \<open>str.strip()\<close>.
\<close>

definition is_space :: "nat \<Rightarrow> bool" where
  "is_space c =
     ((9 \<le> c \<and> c \<le> 13) \<or> (28 \<le> c \<and> c \<le> 32) \<or> c = 133 \<or> c = 160 \<or> c = 5760
      \<or> (8192 \<le> c \<and> c \<le> 8202) \<or> c = 8232 \<or> c = 8233 \<or> c = 8239 \<or> c = 8287
      \<or> c = 12288)"

definition is_digit :: "nat \<Rightarrow> bool" where
  "is_digit c = (48 \<le> c \<and> c \<le> 57)"

definition py_strip :: "ustr \<Rightarrow> ustr" where
  "py_strip s = rev (dropWhile is_space (rev (dropWhile is_space s)))"

fun startswith :: "ustr \<Rightarrow> ustr \<Rightarrow> bool" where
  "startswith s [] = True"
| "startswith [] (p # ps) = False"
| "startswith (c # cs) (p # ps) = (c = p \<and> startswith cs ps)"

text \<open>\<open>sub in s\<close>\<close>

fun contains :: "ustr \<Rightarrow> ustr \<Rightarrow> bool" where
  "contains [] sub = (sub = [])"
| "contains (c # cs) sub = (startswith (c # cs) sub \<or> contains cs sub)"

text \<open>
  \<open>s.split(sep)\<close> for a non-empty separator: the pieces between the occurrences of
  \<open>sep\<close>, found from the left without overlap. \<open>cur\<close> is the piece being read.
\<close>

fun split_from :: "ustr \<Rightarrow> ustr \<Rightarrow> ustr \<Rightarrow> ustr list" where
  "split_from sep cur [] = [cur]"
| "split_from sep cur (c # cs) =
     (if sep \<noteq> [] \<and> startswith (c # cs) sep
      then cur # split_from sep [] (drop (length sep - 1) cs)
      else split_from sep (cur @ [c]) cs)"

definition py_split :: "ustr \<Rightarrow> ustr \<Rightarrow> exc + ustr list" where
  "py_split s sep = (if sep = [] then Inl ValueError else Inr (split_from sep [] s))"

text \<open>\<open>s.split()\<close>: the maximal runs of characters that are not whitespace.\<close>

fun words_from :: "ustr \<Rightarrow> ustr \<Rightarrow> ustr list" where
  "words_from cur [] = (if cur = [] then [] else [cur])"
| "words_from cur (c # cs) =
     (if is_space c then (if cur = [] then words_from [] cs else cur # words_from [] cs)
      else words_from (cur @ [c]) cs)"

definition py_words :: "ustr \<Rightarrow> ustr list" where
  "py_words s = words_from [] s"

text \<open>\<open>xs[i]\<close> for a non-negative index: \<open>IndexError\<close> out of range.\<close>

definition py_index :: "'a list \<Rightarrow> nat \<Rightarrow> exc + 'a" where
  "py_index xs i = (if i < length xs then Inr (xs ! i) else Inl IndexError)"

text \<open>\<open>s.replace(old, new)\<close> for a one-character \<open>old\<close>.\<close>

definition replace_char :: "nat \<Rightarrow> ustr \<Rightarrow> ustr \<Rightarrow> ustr" where
  "replace_char old new s = concat (map (\<lambda>c. if c = old then new else [c]) s)"

text \<open>\<open>f"{s:<w}"\<close>: padded with spaces on the right to width \<open>w\<close>, never cut.\<close>

definition ljust :: "nat \<Rightarrow> ustr \<Rightarrow> ustr" where
  "ljust w s = s @ replicate (w - length s) 32"

section \<open>Parsing numbers\<close>

text \<open>
  \<open>int(s)\<close> and \<open>float(s)\<close> accept an underscore between two digits and nowhere else;
  the underscores are then dropped. \<open>prev\<close> is the character read before.
\<close>

fun drop_underscores :: "nat option \<Rightarrow> ustr \<Rightarrow> ustr option" where
  "drop_underscores prev [] = (if prev = Some 95 then None else Some [])"
| "drop_underscores prev (c # cs) =
     (if c = 95 then
        (case prev of
           Some p \<Rightarrow> if is_digit p then drop_underscores (Some c) cs else None
         | None \<Rightarrow> None)
      else if prev = Some 95 \<and> \<not> is_digit c then None
      else map_option ((#) c) (drop_underscores (Some c) cs))"

definition digits_val :: "ustr \<Rightarrow> nat" where
  "digits_val ds = foldl (\<lambda>a c. 10 * a + (c - 48)) 0 ds"

text \<open>An optional sign in front: whether it is a minus, and the rest.\<close>

definition split_sign :: "ustr \<Rightarrow> bool \<times> ustr" where
  "split_sign s =
     (case s of
        [] \<Rightarrow> (False, [])
      | c # cs \<Rightarrow> if c = 45 then (True, cs) else if c = 43 then (False, cs) else (False, s))"

text \<open>
  \<open>int(s)\<close> in base 10, on ASCII digits (the decimal digits of other scripts, which
  Python accepts too, are not modelled: they are a \<open>ValueError\<close> here, written
  \<open>None\<close>).
\<close>

definition py_int :: "ustr \<Rightarrow> int option" where
  "py_int s =
     (case drop_underscores None (py_strip s) of
        None \<Rightarrow> None
      | Some u \<Rightarrow>
          (let (neg, body) = split_sign u in
           if body \<noteq> [] \<and> list_all is_digit body
           then Some (if neg then - int (digits_val body) else int (digits_val body))
           else None))"

text \<open>The exponent part of a decimal literal: empty, or \<open>e\<close>, an optional sign and digits.\<close>

definition parse_exponent :: "ustr \<Rightarrow> int option" where
  "parse_exponent s =
     (case s of
        [] \<Rightarrow> Some 0
      | c # cs \<Rightarrow>
          if c = 101 \<or> c = 69 then
            (let (neg, ds) = split_sign cs in
             if ds \<noteq> [] \<and> list_all is_digit ds
             then Some (if neg then - int (digits_val ds) else int (digits_val ds))
             else None)
          else None)"

text \<open>
  A decimal literal \<open>digits [. digits] [exponent]\<close> with at least one digit: its digits
  as a number \<open>m\<close> and the power of ten \<open>k\<close>, the literal standing for \<open>m * 10^k\<close>.
\<close>

definition parse_decimal :: "ustr \<Rightarrow> (nat \<times> int) option" where
  "parse_decimal s =
     (let ip = takeWhile is_digit s;
          r1 = dropWhile is_digit s;
          (fp, r2) = (case r1 of
                        [] \<Rightarrow> ([], [])
                      | c # cs \<Rightarrow> if c = 46 then (takeWhile is_digit cs, dropWhile is_digit cs)
                                 else ([], r1))
      in if ip = [] \<and> fp = [] then None
         else (case parse_exponent r2 of
                 None \<Rightarrow> None
               | Some e \<Rightarrow> Some (digits_val (ip @ fp), e - int (length fp))))"

text \<open>
  The float nearest to \<open>m * 10^k\<close> with the given sign: an infinity when the value is
  beyond the finite range, a zero when it rounds to nothing.
\<close>

definition decimal_to_float :: "bool \<Rightarrow> nat \<Rightarrow> int \<Rightarrow> pyfloat" where
  "decimal_to_float neg m k =
     (if m = 0 then (if neg then NegZero else Finite 0)
      else let r = (if 0 \<le> k then round_binary64 (m * 10 ^ nat k) 1
                    else round_binary64 m (10 ^ nat (- k)))
           in if 2 ^ 1024 \<le> r then (if neg then NegInf else PosInf)
              else if r = 0 then (if neg then NegZero else Finite 0)
              else Finite (if neg then - r else r))"

definition to_lower :: "nat \<Rightarrow> nat" where
  "to_lower c = (if 65 \<le> c \<and> c \<le> 90 then c + 32 else c)"

text \<open>
  \<open>float(s)\<close>: \<open>None\<close> is a \<open>ValueError\<close>. As for \<open>py_int\<close>, only ASCII digits are
  modelled.
\<close>

definition py_float :: "ustr \<Rightarrow> pyfloat option" where
  "py_float s =
     (case drop_underscores None (py_strip s) of
        None \<Rightarrow> None
      | Some u \<Rightarrow>
          (let (neg, body) = split_sign u;
               low = map to_lower body
           in if low = lit ''inf'' \<or> low = lit ''infinity''
              then Some (if neg then NegInf else PosInf)
              else if low = lit ''nan'' then Some NaN
              else (case parse_decimal body of
                      None \<Rightarrow> None
                    | Some (m, k) \<Rightarrow> Some (decimal_to_float neg m k))))"

section \<open>Comparing floats\<close>

text \<open>\<open>bool(x)\<close>: a float is false when it is zero, of either sign.\<close>

fun truthy :: "pyfloat \<Rightarrow> bool" where
  "truthy (Finite r) = (r \<noteq> 0)"
| "truthy NegZero = False"
| "truthy PosInf = True"
| "truthy NegInf = True"
| "truthy NaN = True"

fun tier :: "pyfloat \<Rightarrow> int" where
  "tier NegInf = - 1"
| "tier PosInf = 1"
| "tier x = 0"

fun magnitude :: "pyfloat \<Rightarrow> real" where
  "magnitude (Finite r) = r"
| "magnitude x = 0"

text \<open>\<open>a < b\<close>, \<open>a == b\<close> and \<open>a >= b\<close> on floats: every comparison with NaN is false.\<close>

definition py_lt :: "pyfloat \<Rightarrow> pyfloat \<Rightarrow> bool" where
  "py_lt a b =
     (a \<noteq> NaN \<and> b \<noteq> NaN \<and>
      (tier a < tier b \<or> (tier a = tier b \<and> magnitude a < magnitude b)))"

definition py_eq :: "pyfloat \<Rightarrow> pyfloat \<Rightarrow> bool" where
  "py_eq a b = (a \<noteq> NaN \<and> b \<noteq> NaN \<and> tier a = tier b \<and> magnitude a = magnitude b)"

definition py_ge :: "pyfloat \<Rightarrow> pyfloat \<Rightarrow> bool" where
  "py_ge a b = (py_lt b a \<or> py_eq a b)"

section \<open>The pages of the vulnerability database\<close>

text \<open>
  The source reads a parsed HTML page only through \<open>find\<close>, \<open>get_text(strip=True)\<close> and
  the \<open>href\<close> attribute. A page is modelled by what these return: an element that
  \<open>find\<close> does not find is \<open>None\<close>, an element that is found is given by its stripped
  text. A link element also has its \<open>href\<close> attribute, which may be missing.
\<close>

record link =
  link_text :: ustr
  href :: "ustr option"

text \<open>
  A table row \<open>tr[data-testid=vuln-row-i]\<close>: its \<open>a[data-testid=vuln-detail-link-i]\<close>,
  \<open>p[data-testid=vuln-summary-i]\<close>, \<open>span#cvss3-link\<close> and
  \<open>span[data-testid=vuln-published-on-i]\<close>.
\<close>

record vuln_row =
  detail_link :: "link option"
  summary :: "ustr option"
  cvss3_link :: "ustr option"
  published_on :: "ustr option"

text \<open>
  A page: its \<open>strong[data-testid=vuln-matching-records-count]\<close> and its
  \<open>table[data-testid=vuln-results-table]\<close>, the table given by its rows.
\<close>

record document =
  matching_records_count :: "ustr option"
  results_table :: "(nat \<Rightarrow> vuln_row option) option"

record response =
  status_code :: int
  content :: document

text \<open>
  \<open>requests.get\<close>: the response to the \<open>k\<close>-th request of the run, made with the given
  \<open>startIndex\<close>. The server is free to answer the same URL differently each time.
\<close>

type_synonym transport = "nat \<Rightarrow> int \<Rightarrow> response"

section \<open>Extracting a record from a row\<close>

record vuln =
  cve_number :: ustr
  score :: pyfloat
  description :: ustr
  published_date :: ustr
  url :: ustr

text \<open>
  \<open>cve_number = cve_link.get_text(strip=True) if cve_link else "N/A"\<close> and
  \<open>cve_url = f"https://nvd.nist.gov{cve_link['href']}" if cve_link else "N/A"\<close>;
  subscripting a link that has no \<open>href\<close> raises \<open>KeyError\<close>.
\<close>

definition extract_link :: "link option \<Rightarrow> exc + ustr \<times> ustr" where
  "extract_link cve_link =
     (case cve_link of
        None \<Rightarrow> Inr (lit ''N/A'', lit ''N/A'')
      | Some l \<Rightarrow>
          (case href l of
             None \<Rightarrow> Inl KeyError
           | Some h \<Rightarrow> Inr (link_text l, lit ''https://nvd.nist.gov'' @ h)))"

text \<open>\<open>text.split("V3.1:")[1].split()[0]\<close>: the word that follows the marker.\<close>

definition score_token :: "ustr \<Rightarrow> exc + ustr" where
  "score_token t =
     (case py_split t (lit ''V3.1:'') of
        Inl e \<Rightarrow> Inl e
      | Inr parts \<Rightarrow>
          (case py_index parts 1 of
             Inl e \<Rightarrow> Inl e
           | Inr rest \<Rightarrow> py_index (py_words rest) 0))"

text \<open>
  \<open>score_v3 = None\<close>, and when the score element is there and \<open>"V3.1:"\<close> is in its text,
  \<open>score_v3 = float(text.split("V3.1:")[1].split()[0])\<close>.
\<close>

definition extract_score :: "ustr option \<Rightarrow> exc + pyfloat option" where
  "extract_score score_column =
     (case score_column of
        None \<Rightarrow> Inr None
      | Some t \<Rightarrow>
          if contains t (lit ''V3.1:'') then
            (case score_token t of
               Inl e \<Rightarrow> Inl e
             | Inr tok \<Rightarrow>
                 (case py_float tok of
                    None \<Rightarrow> Inl ValueError
                  | Some x \<Rightarrow> Inr (Some x)))
          else Inr None)"

text \<open>
  The body of the \<open>try\<close> for one row: the record to append, if any, or the exception
  raised. The fields are read in the order of the source.
\<close>

definition extract_row :: "vuln_row \<Rightarrow> exc + vuln option" where
  "extract_row r =
     (case extract_link (detail_link r) of
        Inl e \<Rightarrow> Inl e
      | Inr (number, address) \<Rightarrow>
          (case summary r of
             None \<Rightarrow> Inl AttributeError
           | Some text \<Rightarrow>
               (case extract_score (cvss3_link r) of
                  Inl e \<Rightarrow> Inl e
                | Inr score_v3 \<Rightarrow>
                    (let date = (case published_on r of Some d \<Rightarrow> d | None \<Rightarrow> lit ''N/A'')
                     in (case score_v3 of
                           None \<Rightarrow> Inr None
                         | Some x \<Rightarrow>
                             if truthy x
                             then Inr (Some \<lparr>cve_number = number, score = x,
                                    description = text, published_date = date,
                                    url = address\<rparr>)
                             else Inr None)))))"

text \<open>\<open>except (IndexError, ValueError, AttributeError)\<close>\<close>

definition caught :: "exc \<Rightarrow> bool" where
  "caught e = (e = IndexError \<or> e = ValueError \<or> e = AttributeError)"

section \<open>The run\<close>

text \<open>What the run prints, one value per \<open>print\<close> call.\<close>

datatype msg =
    FailedToRetrieve int
  | NoMatchingRecords
  | TotalFound int
  | NoResultsOnPage nat
  | ErrorProcessingRow exc
  | TableHeader
  | TableRule
  | TableRow ustr
  | ResultsWritten ustr

text \<open>
  The state of a run: the \<open>startIndex\<close> of every request made so far, the lines printed
  so far, and the list \<open>all_vulns\<close>.
\<close>

record crawl =
  requests :: "int list"
  console :: "msg list"
  all_vulns :: "vuln list"

text \<open>
  \<open>for row in range(20)\<close> over one results table. An exception that the \<open>except\<close>
  clause does not name leaves the loop, and the run, with the state reached.
\<close>

fun row_loop :: "(nat \<Rightarrow> vuln_row option) \<Rightarrow> nat list \<Rightarrow> crawl \<Rightarrow> exc \<times> crawl + crawl" where
  "row_loop cve_table [] st = Inr st"
| "row_loop cve_table (row # rows) st =
     (case cve_table row of
        None \<Rightarrow> row_loop cve_table rows st
      | Some vuln_row \<Rightarrow>
          (case extract_row vuln_row of
             Inr None \<Rightarrow> row_loop cve_table rows st
           | Inr (Some v) \<Rightarrow> row_loop cve_table rows (st\<lparr>all_vulns := all_vulns st @ [v]\<rparr>)
           | Inl e \<Rightarrow>
               if caught e
               then row_loop cve_table rows (st\<lparr>console := console st @ [ErrorProcessingRow e]\<rparr>)
               else Inl (e, st)))"

text \<open>\<open>for page in range(num_pages)\<close>\<close>

fun page_loop :: "transport \<Rightarrow> nat list \<Rightarrow> crawl \<Rightarrow> exc \<times> crawl + crawl" where
  "page_loop get [] st = Inr st"
| "page_loop get (page # pages) st =
     (let start_index = int page * results_per_page;
          response = get (length (requests st)) start_index;
          st1 = st\<lparr>requests := requests st @ [start_index]\<rparr>
      in (case results_table (content response) of
            None \<Rightarrow> page_loop get pages (st1\<lparr>console := console st1 @ [NoResultsOnPage (page + 1)]\<rparr>)
          | Some cve_table \<Rightarrow>
              (case row_loop cve_table [0..<20] st1 of
                 Inl x \<Rightarrow> Inl x
               | Inr st2 \<Rightarrow> page_loop get pages st2)))"

text \<open>
  \<open>all_vulns.sort(key=lambda x: x['score'], reverse=True)\<close>. Python reverses the list,
  sorts it stably in ascending order of the keys, comparing them with \<open><\<close> only, and
  reverses the result. The ascending sort is modelled by insertion after the elements
  that are not greater; on keys that \<open><\<close> orders totally every stable sort returns this
  list.
\<close>

fun insert_by_score :: "vuln \<Rightarrow> vuln list \<Rightarrow> vuln list" where
  "insert_by_score x [] = [x]"
| "insert_by_score x (y # ys) =
     (if py_lt (score x) (score y) then x # y # ys else y # insert_by_score x ys)"

definition sort_ascending :: "vuln list \<Rightarrow> vuln list" where
  "sort_ascending xs = foldl (\<lambda>sorted x. insert_by_score x sorted) [] xs"

definition sort_by_score :: "vuln list \<Rightarrow> vuln list" where
  "sort_by_score xs = rev (sort_ascending (rev xs))"

text \<open>
  \<open>truncated_desc = vuln['description'][:95] + "..." if len(vuln['description']) > 95
  else vuln['description']\<close>
\<close>

definition truncated_desc :: "ustr \<Rightarrow> ustr" where
  "truncated_desc d = (if 95 < length d then take 95 d @ lit ''...'' else d)"

definition color :: "pyfloat \<Rightarrow> ustr" where
  "color x =
     (if py_ge x (Finite 7) then 27 # lit ''[91m''
      else if py_ge x (Finite 4) then 27 # lit ''[93m''
      else 27 # lit ''[92m'')"

text \<open>
  One line of the table. \<open>float_str\<close> is Python's conversion of a float to a string,
  which both \<open>print\<close> and the CSV writer use; it is a parameter of the model.
\<close>

definition table_row :: "(pyfloat \<Rightarrow> ustr) \<Rightarrow> vuln \<Rightarrow> ustr" where
  "table_row float_str v =
     ljust 20 (cve_number v) @ lit '' '' @ color (score v) @ ljust 8 (float_str (score v))
     @ 27 # lit ''[0m'' @ lit '' '' @ ljust 100 (truncated_desc (description v)) @ lit '' ''
     @ ljust 20 (published_date v) @ lit '' '' @ url v"

section \<open>Writing the CSV file\<close>

text \<open>
  \<open>csv.DictWriter\<close> with the default dialect: fields separated by a comma, a field
  that contains a comma, a double quote, a carriage return or a line feed is enclosed in
  double quotes with its double quotes doubled, and every row ends with CR LF.
\<close>

definition csv_special :: "nat \<Rightarrow> bool" where
  "csv_special c = (c = 44 \<or> c = 34 \<or> c = 13 \<or> c = 10)"

definition csv_field :: "ustr \<Rightarrow> ustr" where
  "csv_field f =
     (if list_ex csv_special f
      then 34 # concat (map (\<lambda>c. if c = 34 then [34, 34] else [c]) f) @ [34]
      else f)"

fun csv_join :: "ustr list \<Rightarrow> ustr" where
  "csv_join [] = []"
| "csv_join [f] = f"
| "csv_join (f # g # fs) = f @ 44 # csv_join (g # fs)"

definition csv_writerow :: "ustr list \<Rightarrow> ustr" where
  "csv_writerow cells =
     (if cells = [[]] then [34, 34] else csv_join (map csv_field cells)) @ [13, 10]"

definition fieldnames :: "ustr list" where
  "fieldnames = [lit ''cve_number'', lit ''score'', lit ''description'',
     lit ''published_date'', lit ''url'']"

text \<open>The values of a record under the field names, converted to strings.\<close>

definition vuln_fields :: "(pyfloat \<Rightarrow> ustr) \<Rightarrow> vuln \<Rightarrow> ustr list" where
  "vuln_fields float_str v =
     [cve_number v, float_str (score v), description v, published_date v, url v]"

text \<open>
  The file is opened with \<open>encoding='utf-8'\<close>: a string can be written when it has no
  surrogate code point (and no number above \<open>U+10FFFF\<close>, which is not a character).
\<close>

definition encodable :: "ustr \<Rightarrow> bool" where
  "encodable s = list_all (\<lambda>c. c < 55296 \<or> (57343 < c \<and> c \<le> 1114111)) s"

text \<open>
  The file system, as far as the run meets it: for a file name, the exception that
  \<open>os.makedirs('./NistSearchResults', exist_ok=True)\<close> or \<open>open(filename, 'w', ...)\<close>
  raises, or \<open>None\<close> when the file is opened for writing. A query with a \<open>/\<close> in it,
  for one, names a file in a directory that does not exist, and \<open>open\<close> raises
  \<open>FileNotFoundError\<close>.
\<close>

type_synonym filesystem = "ustr \<Rightarrow> exc option"

text \<open>\<open>f'{output_dir}/nist_cve_results_{cpe_query.replace(":", "_")}.csv'\<close>\<close>

definition csv_filename :: "ustr \<Rightarrow> ustr" where
  "csv_filename cpe_query =
     lit ''./NistSearchResults/nist_cve_results_'' @ replace_char 58 (lit ''_'') cpe_query
       @ lit ''.csv''"

text \<open>
  The rows are written one at a time. A row that cannot be encoded raises
  \<open>UnicodeEncodeError\<close>; the rows written before it stay in the file. The result is
  the text of the file and the exception, if any.
\<close>

fun write_rows :: "ustr list \<Rightarrow> ustr \<times> exc option" where
  "write_rows [] = ([], None)"
| "write_rows (line # rest) =
     (if encodable line
      then (case write_rows rest of (written, e) \<Rightarrow> (line @ written, e))
      else ([], Some UnicodeEncodeError))"

text \<open>
  \<open>output_to_csv\<close>: the file that exists afterwards (its name and its text), if one was
  opened, and the exception raised, if any.
\<close>

definition output_to_csv ::
  "(pyfloat \<Rightarrow> ustr) \<Rightarrow> filesystem \<Rightarrow> vuln list \<Rightarrow> ustr \<Rightarrow> (ustr \<times> ustr) option \<times> exc option" where
  "output_to_csv float_str create vulns cpe_query =
     (let filename = csv_filename cpe_query
      in (case create filename of
            Some e \<Rightarrow> (None, Some e)
          | None \<Rightarrow>
              (case write_rows (csv_writerow fieldnames
                      # map (\<lambda>v. csv_writerow (vuln_fields float_str v)) vulns) of
                 (written, e) \<Rightarrow> (Some (filename, written), e))))"

section \<open>Reading the CSV file back\<close>

text \<open>
  Modelled from the spec: reading the file back is not part of the source. The reader
  is the automaton of the quoting rules that the writer follows, the one of Python's
  \<open>csv.reader\<close> with the default dialect on a file opened with \<open>newline=''\<close>: outside
  double quotes a comma ends a field and a line feed, a carriage return or the two
  together end a row; a double quote at the start of a field opens a quoted part, in
  which two double quotes stand for one and a single one closes the part. A line with
  nothing on it is a row with no field. The reader refuses, with \<open>csv.Error\<close>, a field
  longer than its field size limit (\<open>csv.field_size_limit\<close>, 131072 characters unless
  the reading program sets another).
\<close>

datatype reader_state = START_RECORD | START_FIELD | IN_FIELD | IN_QUOTED_FIELD
  | QUOTE_IN_QUOTED_FIELD

text \<open>The text after a line end whose first character \<open>c\<close> was just read.\<close>

definition after_newline :: "nat \<Rightarrow> ustr \<Rightarrow> ustr" where
  "after_newline c cs =
     (if c = 13 then (case cs of [] \<Rightarrow> [] | d # ds \<Rightarrow> if d = 10 then ds else cs) else cs)"

text \<open>A row in front of the rows that follow, when reading those raised nothing.\<close>

definition cons_row :: "ustr list \<Rightarrow> exc + ustr list list \<Rightarrow> exc + ustr list list" where
  "cons_row row r = (case r of Inl e \<Rightarrow> Inl e | Inr rows \<Rightarrow> Inr (row # rows))"

text \<open>
  \<open>csv_reader limit st field cells s\<close>: the rows read from \<open>s\<close> by a reader in state
  \<open>st\<close> that has read \<open>field\<close> of the current field and \<open>cells\<close> of the current row.
\<close>

function csv_reader ::
  "nat \<Rightarrow> reader_state \<Rightarrow> ustr \<Rightarrow> ustr list \<Rightarrow> ustr \<Rightarrow> exc + ustr list list" where
  "csv_reader limit st field cells [] =
     Inr (if st = START_RECORD then [] else [cells @ [field]])"
| "csv_reader limit st field cells (c # cs) =
     (if st = IN_QUOTED_FIELD then
        (if c = 34 then csv_reader limit QUOTE_IN_QUOTED_FIELD field cells cs
         else if limit \<le> length field then Inl CsvError
         else csv_reader limit IN_QUOTED_FIELD (field @ [c]) cells cs)
      else if c = 10 \<or> c = 13 then
        cons_row (if st = START_RECORD then [] else cells @ [field])
          (csv_reader limit START_RECORD [] [] (after_newline c cs))
      else if c = 44 then csv_reader limit START_FIELD [] (cells @ [field]) cs
      else if c = 34 \<and> (st = START_RECORD \<or> st = START_FIELD)
        then csv_reader limit IN_QUOTED_FIELD field cells cs
      else if limit \<le> length field then Inl CsvError
      else if c = 34 \<and> st = QUOTE_IN_QUOTED_FIELD
        then csv_reader limit IN_QUOTED_FIELD (field @ [c]) cells cs
      else csv_reader limit IN_FIELD (field @ [c]) cells cs)"
  by pat_completeness auto
termination
  by (relation "measure (\<lambda>(limit, st, field, cells, s). length s)")
     (auto simp: after_newline_def split: list.splits)

declare csv_reader.simps(2) [simp del]

definition csv_read :: "nat \<Rightarrow> ustr \<Rightarrow> exc + ustr list list" where
  "csv_read limit s = csv_reader limit START_RECORD [] [] s"

text \<open>The inside of a quoted field, as the writer writes it.\<close>

definition csv_escape :: "ustr \<Rightarrow> ustr" where
  "csv_escape f = concat (map (\<lambda>c. if c = 34 then [34, 34] else [c]) f)"

section \<open>The scraper\<close>

text \<open>
  The end of a run: how far it got (\<open>final\<close>), the file it wrote, if any, and the
  exception that ended it, if any. The run is modelled from its first request on, for a
  query that \<open>urllib.parse.quote\<close> encodes (it raises on a lone surrogate), and with a
  standard output that takes every string.
\<close>

record run =
  final :: crawl
  csv_file :: "(ustr \<times> ustr) option"
  raised :: "exc option"

definition scrape_nist_cve ::
  "(pyfloat \<Rightarrow> ustr) \<Rightarrow> filesystem \<Rightarrow> transport \<Rightarrow> ustr \<Rightarrow> run" where
  "scrape_nist_cve float_str create get cpe_query =
     (let response = get 0 0;
          st0 = \<lparr>requests = [0], console = [], all_vulns = []\<rparr>
      in if status_code response \<noteq> 200
         then \<lparr>final = st0\<lparr>console := [FailedToRetrieve (status_code response)]\<rparr>,
               csv_file = None, raised = None\<rparr>
         else (case matching_records_count (content response) of
            None \<Rightarrow> \<lparr>final = st0\<lparr>console := [NoMatchingRecords]\<rparr>,
                      csv_file = None, raised = None\<rparr>
          | Some text \<Rightarrow>
             (case py_int (replace_char 44 [] text) of
                None \<Rightarrow> \<lparr>final = st0, csv_file = None, raised = Some ValueError\<rparr>
              | Some total_vulns \<Rightarrow>
                 (let st1 = st0\<lparr>console := [TotalFound total_vulns]\<rparr>
                  in (case num_pages total_vulns of
                        Inl e \<Rightarrow> \<lparr>final = st1, csv_file = None, raised = Some e\<rparr>
                      | Inr n \<Rightarrow>
                         (case page_loop get [0..<nat n] st1 of
                            Inl (e, st2) \<Rightarrow> \<lparr>final = st2, csv_file = None, raised = Some e\<rparr>
                          | Inr st2 \<Rightarrow>
                             (let vulns = sort_by_score (all_vulns st2);
                                  st3 = st2\<lparr>all_vulns := vulns,
                                          console := console st2 @ [TableHeader, TableRule]
                                            @ map (\<lambda>v. TableRow (table_row float_str v)) vulns\<rparr>
                              in (case output_to_csv float_str create vulns cpe_query of
                                    (file, None) \<Rightarrow>
                                      \<lparr>final = st3\<lparr>console := console st3
                                                @ [ResultsWritten (csv_filename cpe_query)]\<rparr>,
                                       csv_file = file, raised = None\<rparr>
                                  | (file, Some e) \<Rightarrow>
                                      \<lparr>final = st3, csv_file = file, raised = Some e\<rparr>))))))))"

text \<open>The state a loop ended in, whether it ended normally or by an exception.\<close>

fun end_state :: "exc \<times> crawl + crawl \<Rightarrow> crawl" where
  "end_state (Inl (e, st)) = st"
| "end_state (Inr st) = st"

section \<open>Example pages\<close>

text \<open>
  Concrete inputs for the properties below. \<open>advisory n s\<close> is a complete row for the
  vulnerability \<open>n\<close> whose score element reads \<open>s\<close>; \<open>results_page c rows\<close> is a page
  served with status 200 whose count element reads \<open>c\<close> and whose table has the given
  rows in the slots \<open>0, 1, ...\<close>; \<open>always p\<close> is a server that answers every request
  with \<open>p\<close>.
\<close>

definition advisory :: "ustr \<Rightarrow> ustr \<Rightarrow> vuln_row" where
  "advisory n s =
     \<lparr>detail_link = Some \<lparr>link_text = n, href = Some (lit ''/vuln/detail/'' @ n)\<rparr>,
      summary = Some (lit ''Buffer overflow in the parser''),
      cvss3_link = Some s,
      published_on = Some (lit ''May 01, 2024'')\<rparr>"

definition results_page :: "ustr \<Rightarrow> vuln_row list \<Rightarrow> response" where
  "results_page c rows =
     \<lparr>status_code = 200,
      content = \<lparr>matching_records_count = Some c,
                 results_table = Some (\<lambda>i. if i < length rows then Some (rows ! i) else None)\<rparr>\<rparr>"

definition always :: "response \<Rightarrow> transport" where
  "always p = (\<lambda>k start_index. p)"

definition windows_query :: ustr where
  "windows_query = lit ''cpe:2.3:o:microsoft:windows''"

text \<open>A file system on which every file can be created.\<close>

definition writable :: filesystem where
  "writable = (\<lambda>name. None)"

text \<open>The decimal digits of a natural number.\<close>

fun digits_of :: "nat \<Rightarrow> ustr" where
  "digits_of n = (if n < 10 then [48 + n] else digits_of (n div 10) @ [48 + n mod 10])"

declare digits_of.simps [simp del]

text \<open>
  Python's \<open>str\<close> on the floats that the examples use: the whole numbers below \<open>10^16\<close>
  in absolute value (\<open>5.0\<close>, \<open>-3.0\<close>) and the values that are not finite. Elsewhere
  Python prints the shortest decimal that reads back as the same float, which is not
  modelled; the examples do not use such a value.
\<close>

fun example_str :: "pyfloat \<Rightarrow> ustr" where
  "example_str (Finite r) =
     (if r = of_int \<lfloor>r\<rfloor> \<and> \<bar>r\<bar> < 10 ^ 16
      then (if r < 0 then lit ''-'' else []) @ digits_of (nat \<bar>\<lfloor>r\<rfloor>\<bar>) @ lit ''.0''
      else lit ''?'')"
| "example_str NegZero = lit ''-0.0''"
| "example_str PosInf = lit ''inf''"
| "example_str NegInf = lit ''-inf''"
| "example_str NaN = lit ''nan''"

text \<open>A row whose link has no \<open>href\<close> attribute, and a row with no summary element.\<close>

definition no_href :: "vuln_row \<Rightarrow> vuln_row" where
  "no_href r = r\<lparr>detail_link := Some \<lparr>link_text = lit ''CVE-2024-0003'', href = None\<rparr>\<rparr>"

definition no_summary :: "vuln_row \<Rightarrow> vuln_row" where
  "no_summary r = r\<lparr>summary := None\<rparr>"

text \<open>
  A server whose only page lists one vulnerability with a CVSS 3.1 score and one that
  has a CVSS 2.0 score only.
\<close>

definition scored_and_unscored :: transport where
  "scored_and_unscored =
     always (results_page (lit ''2'')
       [advisory (lit ''CVE-2024-0001'') (lit ''V3.1:9.0 CRITICAL''),
        advisory (lit ''CVE-2024-0002'') (lit ''V2.0:7.5 HIGH'')])"

text \<open>A server whose only page lists a score that reads \<open>nan\<close> before a score of 5.\<close>

definition nan_then_five :: transport where
  "nan_then_five =
     always (results_page (lit ''2'')
       [advisory (lit ''CVE-2024-0005'') (lit ''V3.1:nan''),
        advisory (lit ''CVE-2024-0006'') (lit ''V3.1:5.0 MEDIUM'')])"

text \<open>The record that a complete example row gives.\<close>

definition advisory_record :: "ustr \<Rightarrow> pyfloat \<Rightarrow> vuln" where
  "advisory_record n x =
     \<lparr>cve_number = n, score = x, description = lit ''Buffer overflow in the parser'',
      published_date = lit ''May 01, 2024'',
      url = lit ''https://nvd.nist.gov/vuln/detail/'' @ n\<rparr>"

section \<open>Properties of page planning\<close>

lemmas float_eval = ilog2.simps pow2_le_def binade_def round_half_even_def
  round_binary64_def py_truediv_def Let_def

lemmas pages_eval = float_eval num_pages_def results_per_page_def start_indexes_def
  page_offsets_def

lemmas str_eval = lit_def is_space_def is_digit_def py_strip_def py_split_def py_words_def
  py_index_def replace_char_def ljust_def digits_val_def split_sign_def py_int_def
  parse_exponent_def parse_decimal_def decimal_to_float_def to_lower_def py_float_def

lemmas row_eval = str_eval float_eval score_token_def extract_link_def extract_score_def
  extract_row_def caught_def

lemmas csv_eval = csv_special_def csv_field_def csv_writerow_def fieldnames_def
  vuln_fields_def output_to_csv_def csv_filename_def encodable_def

lemmas run_eval = row_eval pages_eval csv_eval scrape_nist_cve_def sort_by_score_def
  sort_ascending_def py_lt_def py_eq_def py_ge_def upt_rec truncated_desc_def color_def
  table_row_def digits_of.simps

lemmas example_eval = advisory_def results_page_def always_def windows_query_def
  writable_def
  no_href_def no_summary_def scored_and_unscored_def nan_then_five_def advisory_record_def

lemma num_pages_0: "num_pages 0 = Inr 0"
  by (simp add: pages_eval)

lemma num_pages_41: "num_pages 41 = Inr 3"
  by (simp add: pages_eval)

lemma num_pages_40: "num_pages 40 = Inr 2"
  by (simp add: pages_eval)

lemma page_offsets_41: "page_offsets 41 = Inr [0, 20, 40]"
  by (simp add: pages_eval upt_rec)

lemma page_offsets_40: "page_offsets 40 = Inr [0, 20]"
  by (simp add: pages_eval upt_rec)

text \<open>
  C1. The number of pages is meant to be the exact ceiling of \<open>total / 20\<close> for every
  non-negative total. The source computes it through float division, which rounds the
  quotient to 53 significant bits before \<open>math.ceil\<close> sees it. For the total
  \<open>20 * 2^49 + 1 = 11258999068426241\<close> the quotient \<open>562949953421312.05\<close> rounds to
  \<open>562949953421312.0\<close>, so the code plans \<open>562949953421312\<close> pages where the exact
  ceiling is \<open>562949953421313\<close>: the last record is on a page that is never fetched.
\<close>

theorem num_pages_float_rounding:
  "num_pages 11258999068426241 = Inr 562949953421312 \<and>
   \<lceil>(11258999068426241 :: real) / 20\<rceil> = 562949953421313"
  by (simp add: pages_eval)

section \<open>Properties of row extraction\<close>

lemma extract_score_absent: "extract_score None = Inr None"
  by (simp add: extract_score_def)

lemma extract_score_no_marker:
  "\<not> contains t (lit ''V3.1:'') \<Longrightarrow> extract_score (Some t) = Inr None"
  by (simp add: extract_score_def)

lemma score_token_raises: "score_token t = Inl e \<Longrightarrow> e = IndexError"
  by (auto simp: score_token_def py_split_def py_index_def lit_def split: if_splits sum.splits)

lemma extract_score_raises:
  "extract_score sc = Inl e \<Longrightarrow> e = IndexError \<or> e = ValueError"
  by (auto simp: extract_score_def dest: score_token_raises
      split: option.splits if_splits sum.splits)

lemma extract_score_Some:
  "extract_score sc = Inr (Some x) \<longleftrightarrow>
     (\<exists>t tok. sc = Some t \<and> contains t (lit ''V3.1:'') \<and> score_token t = Inr tok
        \<and> py_float tok = Some x)"
  by (auto simp: extract_score_def split: option.splits if_splits sum.splits)

lemma extract_row_Some:
  "extract_row r = Inr (Some v) \<longleftrightarrow>
     (\<exists>number address text x.
        extract_link (detail_link r) = Inr (number, address) \<and> summary r = Some text \<and>
        extract_score (cvss3_link r) = Inr (Some x) \<and> truthy x \<and>
        v = \<lparr>cve_number = number, score = x, description = text,
              published_date = (case published_on r of Some d \<Rightarrow> d | None \<Rightarrow> lit ''N/A''),
              url = address\<rparr>)"
  by (auto simp: extract_row_def Let_def split: option.splits if_splits sum.splits prod.splits)

lemma extract_row_raises:
  "extract_row r = Inl e \<Longrightarrow>
     caught e \<or> (e = KeyError \<and> (\<exists>l. detail_link r = Some l \<and> href l = None))"
  by (auto simp: extract_row_def extract_link_def caught_def Let_def
      dest: extract_score_raises
      split: option.splits if_splits sum.splits prod.splits)


section \<open>Properties of the loops\<close>

lemma row_loop_end:
  "requests (end_state (row_loop tbl rows st)) = requests st \<and>
   (\<exists>new. all_vulns (end_state (row_loop tbl rows st)) = all_vulns st @ new \<and>
      (\<forall>v\<in>set new. \<exists>j\<in>set rows. \<exists>r. tbl j = Some r \<and> extract_row r = Inr (Some v)))"
proof (induction rows arbitrary: st)
  case Nil
  then show ?case by simp
next
  case (Cons row rows)
  show ?case
  proof (cases "tbl row")
    case None
    with Cons.IH [of st] show ?thesis by auto
  next
    case (Some r)
    show ?thesis
    proof (cases "extract_row r")
      case (Inl e)
      with Some Cons.IH [of "st\<lparr>console := console st @ [ErrorProcessingRow e]\<rparr>"]
      show ?thesis by auto
    next
      case (Inr res)
      show ?thesis
      proof (cases res)
        case None
        with Some Inr Cons.IH [of st] show ?thesis by auto
      next
        case (Some v)
        from Cons.IH [of "st\<lparr>all_vulns := all_vulns st @ [v]\<rparr>"]
        obtain new where
          n: "all_vulns (end_state (row_loop tbl rows (st\<lparr>all_vulns := all_vulns st @ [v]\<rparr>)))
                = (all_vulns st @ [v]) @ new"
            "\<forall>w\<in>set new. \<exists>j\<in>set rows. \<exists>r. tbl j = Some r \<and> extract_row r = Inr (Some w)"
          and rq: "requests (end_state (row_loop tbl rows (st\<lparr>all_vulns := all_vulns st @ [v]\<rparr>)))
                = requests st"
          by auto
        have "all_vulns (end_state (row_loop tbl (row # rows) st)) = all_vulns st @ (v # new)"
          using n(1) \<open>tbl row = Some r\<close> Inr Some by simp
        moreover have "\<forall>w\<in>set (v # new). \<exists>j\<in>set (row # rows). \<exists>r.
            tbl j = Some r \<and> extract_row r = Inr (Some w)"
          using n(2) \<open>tbl row = Some r\<close> Inr Some by auto
        moreover have "requests (end_state (row_loop tbl (row # rows) st)) = requests st"
          using rq \<open>tbl row = Some r\<close> Inr Some by simp
        ultimately show ?thesis by blast
      qed
    qed
  qed
qed

lemma page_loop_end:
  "\<exists>new. all_vulns (end_state (page_loop get pages st)) = all_vulns st @ new \<and>
      (\<forall>v\<in>set new. \<exists>k i tbl j r. results_table (content (get k i)) = Some tbl \<and>
          j < 20 \<and> tbl j = Some r \<and> extract_row r = Inr (Some v))"
proof (induction pages arbitrary: st)
  case Nil
  then show ?case by simp
next
  case (Cons page pages)
  define k where "k = length (requests st)"
  define i where "i = int page * results_per_page"
  define st1 where "st1 = st\<lparr>requests := requests st @ [i]\<rparr>"
  show ?case
  proof (cases "results_table (content (get k i))")
    case None
    with Cons.IH [of "st1\<lparr>console := console st1 @ [NoResultsOnPage (page + 1)]\<rparr>"]
    show ?thesis by (simp add: Let_def k_def i_def st1_def)
  next
    case (Some tbl)
    from row_loop_end [of tbl "[0..<20]" st1]
    obtain new1 where
      n1: "all_vulns (end_state (row_loop tbl [0..<20] st1)) = all_vulns st @ new1"
          "\<forall>v\<in>set new1. \<exists>j\<in>set [0..<20]. \<exists>r. tbl j = Some r \<and> extract_row r = Inr (Some v)"
      by (auto simp: st1_def)
    have from1: "\<forall>v\<in>set new1. \<exists>k i tbl j r. results_table (content (get k i)) = Some tbl \<and>
          j < 20 \<and> tbl j = Some r \<and> extract_row r = Inr (Some v)"
    proof
      fix v assume "v \<in> set new1"
      with n1(2) obtain j r where "j < 20" "tbl j = Some r" "extract_row r = Inr (Some v)"
        by auto
      with Some show "\<exists>k i tbl j r. results_table (content (get k i)) = Some tbl \<and>
          j < 20 \<and> tbl j = Some r \<and> extract_row r = Inr (Some v)"
        by blast
    qed
    show ?thesis
    proof (cases "row_loop tbl [0..<20] st1")
      case (Inl x)
      then have "page_loop get (page # pages) st = Inl x"
        using Some by (simp add: Let_def k_def i_def st1_def)
      with Inl n1(1) from1 show ?thesis by auto
    next
      case (Inr st2)
      then have eq: "page_loop get (page # pages) st = page_loop get pages st2"
        using Some by (simp add: Let_def k_def i_def st1_def)
      from Inr n1(1) have a2: "all_vulns st2 = all_vulns st @ new1" by simp
      from Cons.IH [of st2] obtain new2 where
        n2: "all_vulns (end_state (page_loop get pages st2)) = all_vulns st2 @ new2"
            "\<forall>v\<in>set new2. \<exists>k i tbl j r. results_table (content (get k i)) = Some tbl \<and>
                j < 20 \<and> tbl j = Some r \<and> extract_row r = Inr (Some v)"
        by blast
      have "all_vulns (end_state (page_loop get (page # pages) st)) = all_vulns st @ (new1 @ new2)"
        using eq n2(1) a2 by simp
      moreover have "\<forall>v\<in>set (new1 @ new2). \<exists>k i tbl j r.
          results_table (content (get k i)) = Some tbl \<and>
          j < 20 \<and> tbl j = Some r \<and> extract_row r = Inr (Some v)"
        using from1 n2(2) by auto
      ultimately show ?thesis by blast
    qed
  qed
qed

lemma page_loop_requests:
  "page_loop get pages st = Inr st' \<Longrightarrow>
   requests st' = requests st @ map (\<lambda>page. int page * results_per_page) pages"
proof (induction pages arbitrary: st)
  case Nil
  then show ?case by simp
next
  case (Cons page pages)
  define st1 where "st1 = st\<lparr>requests := requests st @ [int page * results_per_page]\<rparr>"
  show ?case
  proof (cases "results_table (content (get (length (requests st)) (int page * results_per_page)))")
    case None
    with Cons.prems
    have "page_loop get pages (st1\<lparr>console := console st1 @ [NoResultsOnPage (page + 1)]\<rparr>) = Inr st'"
      by (simp add: Let_def st1_def)
    from Cons.IH [OF this] show ?thesis by (simp add: st1_def)
  next
    case (Some tbl)
    with Cons.prems obtain st2 where
      r: "row_loop tbl [0..<20] st1 = Inr st2" and p: "page_loop get pages st2 = Inr st'"
      by (auto simp: Let_def st1_def split: sum.splits)
    from row_loop_end [of tbl "[0..<20]" st1] r have "requests st2 = requests st1" by simp
    with Cons.IH [OF p] show ?thesis by (simp add: st1_def)
  qed
qed

lemma set_insert_by_score: "set (insert_by_score x ys) = insert x (set ys)"
  by (induction ys) auto


lemma set_foldl_insert:
  "set (foldl (\<lambda>sorted x. insert_by_score x sorted) acc xs) = set acc \<union> set xs"
  by (induction xs arbitrary: acc) (auto simp: set_insert_by_score)


lemma set_sort_by_score: "set (sort_by_score xs) = set xs"
  by (simp add: sort_by_score_def sort_ascending_def set_foldl_insert)


lemma scrape_records:
  assumes "v \<in> set (all_vulns (final (scrape_nist_cve float_str create get cpe_query)))"
  shows "\<exists>k i tbl j r. results_table (content (get k i)) = Some tbl \<and>
          j < 20 \<and> tbl j = Some r \<and> extract_row r = Inr (Some v)"
proof -
  have pl: "\<And>pages st. all_vulns st = [] \<Longrightarrow> v \<in> set (all_vulns (end_state (page_loop get pages st)))
    \<Longrightarrow> ?thesis"
    using page_loop_end by (metis append_Nil)
  show ?thesis
    using assms
    apply (simp add: scrape_nist_cve_def Let_def split: if_splits option.splits sum.splits prod.splits)
    apply (auto simp: set_sort_by_score)
     apply (metis pl end_state.simps crawl.select_convs crawl.update_convs)+
    done
qed

section \<open>The discovery request\<close>

text \<open>
  C5. If the discovery request returns a status other than 200, or its page has no
  element with the total count, the run ends at once: one message is printed (the
  failure with the status code, or "No matching records found."), no page request is
  made after the discovery request, no record is collected, no exception is raised and
  no file is written.
\<close>

theorem discovery_failure_aborts:
  assumes "status_code (get 0 0) \<noteq> 200 \<or> matching_records_count (content (get 0 0)) = None"
  shows "csv_file (scrape_nist_cve float_str create get cpe_query) = None \<and>
         raised (scrape_nist_cve float_str create get cpe_query) = None \<and>
         all_vulns (final (scrape_nist_cve float_str create get cpe_query)) = [] \<and>
         requests (final (scrape_nist_cve float_str create get cpe_query)) = [0] \<and>
         console (final (scrape_nist_cve float_str create get cpe_query)) =
           [if status_code (get 0 0) \<noteq> 200 then FailedToRetrieve (status_code (get 0 0))
            else NoMatchingRecords]"
  using assms by (auto simp: scrape_nist_cve_def Let_def)

theorem discovery_failure_aborts_witness:
  "status_code (always \<lparr>status_code = 503, content = \<lparr>matching_records_count = None,
       results_table = None\<rparr>\<rparr> 0 0) = 503 \<and>
   csv_file (scrape_nist_cve example_str writable (always \<lparr>status_code = 503,
       content = \<lparr>matching_records_count = None, results_table = None\<rparr>\<rparr>) windows_query) = None \<and>
   console (final (scrape_nist_cve example_str writable (always \<lparr>status_code = 503,
       content = \<lparr>matching_records_count = None, results_table = None\<rparr>\<rparr>) windows_query))
     = [FailedToRetrieve 503]"
  using discovery_failure_aborts [of "always \<lparr>status_code = 503,
       content = \<lparr>matching_records_count = None, results_table = None\<rparr>\<rparr>" example_str writable windows_query]
  by (simp add: always_def)

text \<open>
  C3 as stated fails. The claim is that a reported total of 0 takes the "no matching
  records" path and writes no file. The source has no test for a total of 0: on the
  page whose count element reads \<open>0\<close> it prints the total, the table header and the
  rule, and writes a file that holds the header row; "No matching records found." is
  never printed.
\<close>

theorem zero_total_counterexample:
  "csv_file (scrape_nist_cve example_str writable (always (results_page (lit ''0'') [])) windows_query)
     = Some (lit ''./NistSearchResults/nist_cve_results_cpe_2.3_o_microsoft_windows.csv'',
             lit ''cve_number,score,description,published_date,url'' @ [13, 10]) \<and>
   console (final (scrape_nist_cve example_str writable (always (results_page (lit ''0'') [])) windows_query))
     = [TotalFound 0, TableHeader, TableRule,
        ResultsWritten (lit ''./NistSearchResults/nist_cve_results_cpe_2.3_o_microsoft_windows.csv'')]"
  by (simp add: run_eval example_eval)

lemma encodable_header: "encodable (csv_writerow fieldnames)"
  by (simp add: csv_eval lit_def)

text \<open>
  C3, amended. When the discovery response has status 200 and reports a total of 0,
  the query can be URL-encoded and its output file can be created, no page is fetched
  (the discovery request is the only request), the record collection is empty, the run
  prints the total, the table header, the rule and the name of the file, and the file is
  written with the header row alone.
\<close>

theorem zero_total_writes_header_only:
  assumes "status_code (get 0 0) = 200"
    and "matching_records_count (content (get 0 0)) = Some shown"
    and "py_int (replace_char 44 [] shown) = Some 0"
    and "encodable cpe_query"
    and "create (csv_filename cpe_query) = None"
  shows "requests (final (scrape_nist_cve float_str create get cpe_query)) = [0] \<and>
         all_vulns (final (scrape_nist_cve float_str create get cpe_query)) = [] \<and>
         raised (scrape_nist_cve float_str create get cpe_query) = None \<and>
         console (final (scrape_nist_cve float_str create get cpe_query)) =
           [TotalFound 0, TableHeader, TableRule, ResultsWritten (csv_filename cpe_query)] \<and>
         csv_file (scrape_nist_cve float_str create get cpe_query) =
           Some (csv_filename cpe_query, csv_writerow fieldnames)"
  using assms encodable_header
  by (simp add: scrape_nist_cve_def Let_def num_pages_0 sort_by_score_def sort_ascending_def
      output_to_csv_def)

theorem zero_total_writes_header_only_witness:
  "status_code (always (results_page (lit ''0'') []) 0 0) = 200 \<and>
   py_int (replace_char 44 [] (lit ''0'')) = Some 0 \<and>
   encodable windows_query \<and>
   writable (csv_filename windows_query) = None \<and>
   requests (final (scrape_nist_cve example_str writable (always (results_page (lit ''0'') []))
      windows_query)) = [0] \<and>
   csv_file (scrape_nist_cve example_str writable (always (results_page (lit ''0'') []))
      windows_query) = Some (csv_filename windows_query, csv_writerow fieldnames)"
proof -
  have a: "status_code (always (results_page (lit ''0'') []) 0 0) = 200"
    by (simp add: example_eval)
  have b: "matching_records_count (content (always (results_page (lit ''0'') []) 0 0)) = Some (lit ''0'')"
    by (simp add: example_eval)
  have c: "py_int (replace_char 44 [] (lit ''0'')) = Some 0"
    by (simp add: str_eval)
  have d: "encodable windows_query"
    by (simp add: encodable_def windows_query_def lit_def)
  have e: "writable (csv_filename windows_query) = None"
    by (simp add: writable_def)
  from zero_total_writes_header_only [where get = "always (results_page (lit ''0'') [])"
      and shown = "lit ''0''" and float_str = example_str and cpe_query = windows_query
      and create = writable, OF a b c d e] a c d e
  show ?thesis by simp
qed

text \<open>
  When the file cannot be created, as for the query \<open>a/b:c\<close> where no directory
  \<open>nist_cve_results_a\<close> exists, the same run ends with the exception of \<open>open\<close> and
  without a file.
\<close>

lemma zero_total_file_not_created:
  assumes "status_code (get 0 0) = 200"
    and "matching_records_count (content (get 0 0)) = Some shown"
    and "py_int (replace_char 44 [] shown) = Some 0"
    and "create (csv_filename cpe_query) = Some e"
  shows "raised (scrape_nist_cve float_str create get cpe_query) = Some e \<and>
         csv_file (scrape_nist_cve float_str create get cpe_query) = None \<and>
         console (final (scrape_nist_cve float_str create get cpe_query)) =
           [TotalFound 0, TableHeader, TableRule]"
  using assms
  by (simp add: scrape_nist_cve_def Let_def num_pages_0 sort_by_score_def sort_ascending_def
      output_to_csv_def)

section \<open>Scores\<close>

text \<open>
  C7. The score is read from the \<open>span#cvss3-link\<close> element alone, and only when its
  text contains \<open>V3.1:\<close>. When the element is absent, or its text does not contain the
  marker, score extraction raises nothing and leaves the row without a score; the row
  then gives no record, and in the row loop the list of records stays as it was.
\<close>

theorem missing_marker_gives_no_score:
  assumes "cvss3_link r = None \<or> (\<exists>t. cvss3_link r = Some t \<and> \<not> contains t (lit ''V3.1:''))"
  shows "extract_score (cvss3_link r) = Inr None \<and>
         (\<forall>v. extract_row r \<noteq> Inr (Some v)) \<and>
         (\<forall>cve_table row st. cve_table row = Some r \<longrightarrow>
            all_vulns (end_state (row_loop cve_table [row] st)) = all_vulns st)"
proof -
  from assms have none: "extract_score (cvss3_link r) = Inr None"
    by (auto simp: extract_score_absent extract_score_no_marker)
  then have no_rec: "\<forall>v. extract_row r \<noteq> Inr (Some v)"
    by (simp add: extract_row_Some)
  have "all_vulns (end_state (row_loop cve_table [row] st)) = all_vulns st"
    if "cve_table row = Some r" for cve_table row st
  proof (cases "extract_row r")
    case (Inl e)
    with that show ?thesis by simp
  next
    case (Inr res)
    with no_rec have "res = None" by (cases res) auto
    with Inr that show ?thesis by simp
  qed
  with none no_rec show ?thesis by blast
qed

theorem missing_marker_gives_no_score_witness:
  "cvss3_link (advisory (lit ''CVE-2024-0001'') (lit ''V2.0:7.5 HIGH'')) = Some (lit ''V2.0:7.5 HIGH'') \<and>
   contains (lit ''V2.0:7.5 HIGH'') (lit ''V3.1:'') = False \<and>
   extract_score (cvss3_link (advisory (lit ''CVE-2024-0001'') (lit ''V2.0:7.5 HIGH''))) = Inr None \<and>
   extract_row (advisory (lit ''CVE-2024-0001'') (lit ''V2.0:7.5 HIGH'')) = Inr None"
proof -
  have a: "cvss3_link (advisory (lit ''CVE-2024-0001'') (lit ''V2.0:7.5 HIGH'')) = Some (lit ''V2.0:7.5 HIGH'')"
    by (simp add: advisory_def)
  have b: "\<not> contains (lit ''V2.0:7.5 HIGH'') (lit ''V3.1:'')"
    by (simp add: lit_def)
  have c: "extract_row (advisory (lit ''CVE-2024-0001'') (lit ''V2.0:7.5 HIGH'')) = Inr None"
    by (simp add: row_eval advisory_def)
  from a b have "cvss3_link (advisory (lit ''CVE-2024-0001'') (lit ''V2.0:7.5 HIGH'')) = None \<or>
     (\<exists>t. cvss3_link (advisory (lit ''CVE-2024-0001'') (lit ''V2.0:7.5 HIGH'')) = Some t \<and>
        \<not> contains t (lit ''V3.1:''))"
    by blast
  from missing_marker_gives_no_score [OF this] a b c show ?thesis by simp
qed



text \<open>
  C2. Every record of the final collection was extracted from a row of a fetched page
  whose score element contains the marker and whose score word \<open>float\<close> parsed to the
  record's score. A row whose score extraction gives no float gives no record.
\<close>

theorem final_records_have_parsed_score:
  "(\<forall>v \<in> set (all_vulns (final (scrape_nist_cve float_str create get cpe_query))).
      \<exists>k i tbl j r t tok.
        results_table (content (get k i)) = Some tbl \<and> j < 20 \<and> tbl j = Some r \<and>
        extract_row r = Inr (Some v) \<and>
        cvss3_link r = Some t \<and> contains t (lit ''V3.1:'') \<and>
        score_token t = Inr tok \<and> py_float tok = Some (score v)) \<and>
   ((\<forall>x. extract_score (cvss3_link r') \<noteq> Inr (Some x)) \<longrightarrow>
      (\<forall>v. extract_row r' \<noteq> Inr (Some v)))"
proof (intro conjI ballI impI)
  fix v
  assume "v \<in> set (all_vulns (final (scrape_nist_cve float_str create get cpe_query)))"
  from scrape_records [OF this] obtain k i tbl j r where
    p: "results_table (content (get k i)) = Some tbl" "j < 20" "tbl j = Some r"
       "extract_row r = Inr (Some v)"
    by blast
  from p(4) have "extract_score (cvss3_link r) = Inr (Some (score v))"
    by (auto simp: extract_row_Some)
  then obtain t tok where
    "cvss3_link r = Some t" "contains t (lit ''V3.1:'')" "score_token t = Inr tok"
    "py_float tok = Some (score v)"
    by (auto simp: extract_score_Some)
  with p show "\<exists>k i tbl j r t tok.
        results_table (content (get k i)) = Some tbl \<and> j < 20 \<and> tbl j = Some r \<and>
        extract_row r = Inr (Some v) \<and>
        cvss3_link r = Some t \<and> contains t (lit ''V3.1:'') \<and>
        score_token t = Inr tok \<and> py_float tok = Some (score v)"
    by blast
next
  assume "\<forall>x. extract_score (cvss3_link r') \<noteq> Inr (Some x)"
  then show "\<forall>v. extract_row r' \<noteq> Inr (Some v)"
    by (auto simp: extract_row_Some)
qed

theorem final_records_have_parsed_score_witness:
  "all_vulns (final (scrape_nist_cve example_str writable scored_and_unscored windows_query)) =
     [advisory_record (lit ''CVE-2024-0001'') (Finite 9)] \<and>
   (\<exists>k i tbl j r t tok.
        results_table (content (scored_and_unscored k i)) = Some tbl \<and> j < 20 \<and> tbl j = Some r \<and>
        extract_row r = Inr (Some (advisory_record (lit ''CVE-2024-0001'') (Finite 9))) \<and>
        cvss3_link r = Some t \<and> contains t (lit ''V3.1:'') \<and>
        score_token t = Inr tok \<and>
        py_float tok = Some (score (advisory_record (lit ''CVE-2024-0001'') (Finite 9)))) \<and>
   extract_score (cvss3_link (advisory (lit ''CVE-2024-0002'') (lit ''V2.0:7.5 HIGH''))) = Inr None \<and>
   extract_row (advisory (lit ''CVE-2024-0002'') (lit ''V2.0:7.5 HIGH'')) = Inr None"
proof -
  have run: "all_vulns (final (scrape_nist_cve example_str writable scored_and_unscored windows_query)) =
     [advisory_record (lit ''CVE-2024-0001'') (Finite 9)]"
    by (simp add: run_eval example_eval)
  have sc: "extract_score (cvss3_link (advisory (lit ''CVE-2024-0002'') (lit ''V2.0:7.5 HIGH''))) = Inr None"
    by (simp add: row_eval example_eval)
  have row: "extract_row (advisory (lit ''CVE-2024-0002'') (lit ''V2.0:7.5 HIGH'')) = Inr None"
    by (simp add: row_eval example_eval)
  from final_records_have_parsed_score [of example_str writable scored_and_unscored windows_query
      "advisory (lit ''CVE-2024-0002'') (lit ''V2.0:7.5 HIGH'')"] run
  have "\<exists>k i tbl j r t tok.
        results_table (content (scored_and_unscored k i)) = Some tbl \<and> j < 20 \<and> tbl j = Some r \<and>
        extract_row r = Inr (Some (advisory_record (lit ''CVE-2024-0001'') (Finite 9))) \<and>
        cvss3_link r = Some t \<and> contains t (lit ''V3.1:'') \<and>
        score_token t = Inr tok \<and>
        py_float tok = Some (score (advisory_record (lit ''CVE-2024-0001'') (Finite 9)))"
    by simp
  with run sc row show ?thesis by blast
qed

section \<open>Exceptions in a row\<close>

text \<open>
  C6 as stated fails. The claim is that any exception raised while the fields of a row
  are read ends that row only. The \<open>except\<close> clause names \<open>IndexError\<close>,
  \<open>ValueError\<close> and \<open>AttributeError\<close>. A link element without an \<open>href\<close> attribute
  raises \<open>KeyError\<close>, which is not caught: the run ends with that exception and no file
  is written, although the row before it had given a record.
\<close>

theorem uncaught_exception_counterexample:
  "extract_row (no_href (advisory (lit ''CVE-2024-0003'') (lit ''V3.1:7.0 HIGH''))) = Inl KeyError \<and>
   raised (scrape_nist_cve example_str writable
      (always (results_page (lit ''2'')
         [advisory (lit ''CVE-2024-0001'') (lit ''V3.1:9.0 CRITICAL''),
          no_href (advisory (lit ''CVE-2024-0003'') (lit ''V3.1:7.0 HIGH''))]))
      windows_query) = Some KeyError \<and>
   csv_file (scrape_nist_cve example_str writable
      (always (results_page (lit ''2'')
         [advisory (lit ''CVE-2024-0001'') (lit ''V3.1:9.0 CRITICAL''),
          no_href (advisory (lit ''CVE-2024-0003'') (lit ''V3.1:7.0 HIGH''))]))
      windows_query) = None"
  by (simp add: run_eval example_eval no_href_def)

text \<open>
  C6, amended. An \<open>IndexError\<close>, \<open>ValueError\<close> or \<open>AttributeError\<close> raised while the
  fields of a row are read ends that row only: the error is printed, the list of records
  is left as it was, and the loop goes on with the next row slot. A missing summary
  element raises \<open>AttributeError\<close>, and every exception of score extraction is one of
  the three.
\<close>

theorem caught_exception_skips_row_only:
  "(cve_table row = Some r \<and> extract_row r = Inl e \<and> caught e \<longrightarrow>
      row_loop cve_table (row # rows) st =
      row_loop cve_table rows (st\<lparr>console := console st @ [ErrorProcessingRow e]\<rparr>)) \<and>
   (summary r = None \<and> extract_link (detail_link r) \<noteq> Inl KeyError \<longrightarrow>
      extract_row r = Inl AttributeError \<and> caught AttributeError) \<and>
   (extract_score (cvss3_link r) = Inl e \<longrightarrow> caught e)"
  by (auto simp: extract_row_def extract_link_def caught_def dest: extract_score_raises
      split: option.splits sum.splits)

theorem caught_exception_skips_row_only_witness:
  "extract_row (no_summary (advisory (lit ''CVE-2024-0004'') (lit ''V3.1:7.0 HIGH''))) = Inl AttributeError \<and>
   row_loop (\<lambda>i. if i = 0 then Some (no_summary (advisory (lit ''CVE-2024-0004'') (lit ''V3.1:7.0 HIGH'')))
                  else None) (0 # [1, 2]) \<lparr>requests = [0, 0], console = [], all_vulns = []\<rparr>
   = row_loop (\<lambda>i. if i = 0 then Some (no_summary (advisory (lit ''CVE-2024-0004'') (lit ''V3.1:7.0 HIGH'')))
                  else None) [1, 2]
       \<lparr>requests = [0, 0], console = [ErrorProcessingRow AttributeError], all_vulns = []\<rparr>"
proof -
  have a: "extract_row (no_summary (advisory (lit ''CVE-2024-0004'') (lit ''V3.1:7.0 HIGH''))) = Inl AttributeError"
    by (simp add: row_eval advisory_def no_summary_def)
  have b: "caught AttributeError"
    by (simp add: caught_def)
  from caught_exception_skips_row_only [of
      "\<lambda>i. if i = 0 then Some (no_summary (advisory (lit ''CVE-2024-0004'') (lit ''V3.1:7.0 HIGH''))) else None"
      0 "no_summary (advisory (lit ''CVE-2024-0004'') (lit ''V3.1:7.0 HIGH''))" AttributeError
      "[1, 2]" "\<lparr>requests = [0, 0], console = [], all_vulns = []\<rparr>"] a b
  show ?thesis by simp
qed

section \<open>Sorting\<close>


lemma py_le_trans:
  "\<not> py_lt b a \<Longrightarrow> \<not> py_lt c b \<Longrightarrow> b \<noteq> NaN \<Longrightarrow> \<not> py_lt c a"
  by (cases a; cases b; cases c; simp add: py_lt_def)











end
